theory Spec2Isabelle
  imports Complex_Main "HOL-Library.AList"
begin

section \<open>JavaScript values\<close>

text \<open>
  The store keeps plain JavaScript objects: \<open>importData\<close> takes \<open>any[]\<close> and casts the
  normalised records to \<open>Person[]\<close>, \<open>Course[]\<close> and \<open>Session[]\<close> without a runtime
  check, so the values of the fields are modelled as JavaScript values and the records as
  association lists from field names to values (insertion order kept, as in an object).

  Numbers are IEEE doubles in the source. The model keeps \<open>NaN\<close> and the two infinities
  and does arithmetic on the finite values exactly, over the rationals: the rounding of
  each double operation and the sign of zero are not modelled.
\<close>

datatype jsnum = NaN | Finite rat | PosInfinity | NegInfinity

datatype jsval =
    JUndefined
  | JNull
  | JBool bool
  | JNum jsnum
  | JStr string
  | JArr "jsval list"

type_synonym obj = "(string \<times> jsval) list"

text \<open>Reading a property: \<open>o.k\<close> is \<open>undefined\<close> when the object has no such key.\<close>

definition fld :: "obj \<Rightarrow> string \<Rightarrow> jsval" where
  "fld ob k = (case map_of ob k of None \<Rightarrow> JUndefined | Some v \<Rightarrow> v)"

text \<open>
  \<open>a === b\<close>. Primitives are compared by value, \<open>NaN\<close> equals nothing. Arrays are
  compared by identity in JavaScript; the value model has no identities and takes two
  arrays to be different objects.
\<close>

fun isArray :: "jsval \<Rightarrow> bool" where
  "isArray (JArr _) = True"
| "isArray _ = False"

definition strict_eq :: "jsval \<Rightarrow> jsval \<Rightarrow> bool" where
  "strict_eq a b = (a = b \<and> a \<noteq> JNum NaN \<and> \<not> isArray a)"

text \<open>Truthiness, as tested by \<open>?:\<close>, \<open>||\<close> and \<open>if\<close>.\<close>

fun truthy :: "jsval \<Rightarrow> bool" where
  "truthy JUndefined = False"
| "truthy JNull = False"
| "truthy (JBool b) = b"
| "truthy (JNum n) = (n \<noteq> NaN \<and> n \<noteq> Finite 0)"
| "truthy (JStr s) = (s \<noteq> [])"
| "truthy (JArr _) = True"

subsection \<open>Conversion to a number\<close>

definition is_ws :: "char \<Rightarrow> bool" where
  "is_ws c = (c \<in> set [CHR 0x09, CHR 0x0A, CHR 0x0B, CHR 0x0C, CHR 0x0D, CHR 0x20])"

definition trim :: "string \<Rightarrow> string" where
  "trim s = rev (dropWhile is_ws (rev (dropWhile is_ws s)))"

definition is_digit :: "char \<Rightarrow> bool" where
  "is_digit c = (48 \<le> (of_char c :: nat) \<and> (of_char c :: nat) \<le> 57)"

definition hex_digit :: "char \<Rightarrow> nat option" where
  "hex_digit c =
     (let n = (of_char c :: nat) in
      if 48 \<le> n \<and> n \<le> 57 then Some (n - 48)
      else if 97 \<le> n \<and> n \<le> 102 then Some (n - 87)
      else if 65 \<le> n \<and> n \<le> 70 then Some (n - 55)
      else None)"

definition digits_val :: "nat \<Rightarrow> string \<Rightarrow> nat" where
  "digits_val base s = foldl (\<lambda>a c. base * a + (case hex_digit c of None \<Rightarrow> 0 | Some d \<Rightarrow> d)) 0 s"

definition digits_in :: "nat \<Rightarrow> string \<Rightarrow> bool" where
  "digits_in base s =
     (s \<noteq> [] \<and> list_all (\<lambda>c. case hex_digit c of None \<Rightarrow> False | Some d \<Rightarrow> d < base) s)"

definition pow10 :: "int \<Rightarrow> rat" where
  "pow10 e = (if 0 \<le> e then 10 ^ nat e else 1 / 10 ^ nat (- e))"

text \<open>The exponent part of a decimal literal: empty, or \<open>e\<close>/\<open>E\<close>, a sign, digits.\<close>

definition parse_exponent :: "string \<Rightarrow> int option" where
  "parse_exponent s =
     (case s of
        [] \<Rightarrow> Some 0
      | c # r \<Rightarrow>
          if c = CHR ''e'' \<or> c = CHR ''E'' then
            (case r of
               [] \<Rightarrow> None
             | d # r' \<Rightarrow>
                 if d = CHR ''+'' then
                   (if digits_in 10 r' then Some (int (digits_val 10 r')) else None)
                 else if d = CHR ''-'' then
                   (if digits_in 10 r' then Some (- int (digits_val 10 r')) else None)
                 else if digits_in 10 r then Some (int (digits_val 10 r)) else None)
          else None)"

definition parse_unsigned :: "string \<Rightarrow> jsnum" where
  "parse_unsigned s =
     (if s = ''Infinity'' then PosInfinity
      else
        let ip = takeWhile is_digit s;
            r1 = dropWhile is_digit s;
            dot = (r1 \<noteq> [] \<and> hd r1 = CHR ''.'');
            fp = (if dot then takeWhile is_digit (tl r1) else []);
            r2 = (if dot then dropWhile is_digit (tl r1) else r1)
        in if ip = [] \<and> fp = [] then NaN
           else case parse_exponent r2 of
                  None \<Rightarrow> NaN
                | Some e \<Rightarrow>
                    Finite ((of_nat (digits_val 10 ip)
                             + of_nat (digits_val 10 fp) / 10 ^ length fp) * pow10 e))"

fun num_neg :: "jsnum \<Rightarrow> jsnum" where
  "num_neg NaN = NaN"
| "num_neg (Finite r) = Finite (- r)"
| "num_neg PosInfinity = NegInfinity"
| "num_neg NegInfinity = PosInfinity"

definition parse_radix :: "nat \<Rightarrow> string \<Rightarrow> jsnum" where
  "parse_radix base s = (if digits_in base s then Finite (of_nat (digits_val base s)) else NaN)"

text \<open>
  \<open>StringToNumber\<close>: white space is trimmed (the ASCII white space and line ends), the
  empty string is 0, then a binary, octal or hexadecimal integer or a signed decimal
  literal; anything else is \<open>NaN\<close>.
\<close>

definition StringToNumber :: "string \<Rightarrow> jsnum" where
  "StringToNumber s =
     (let t = trim s in
      case t of
        [] \<Rightarrow> Finite 0
      | c # r \<Rightarrow>
          if c = CHR ''0'' \<and> r \<noteq> [] \<and> hd r \<in> set [CHR ''x'', CHR ''X''] then parse_radix 16 (tl r)
          else if c = CHR ''0'' \<and> r \<noteq> [] \<and> hd r \<in> set [CHR ''o'', CHR ''O''] then parse_radix 8 (tl r)
          else if c = CHR ''0'' \<and> r \<noteq> [] \<and> hd r \<in> set [CHR ''b'', CHR ''B''] then parse_radix 2 (tl r)
          else if c = CHR ''+'' then parse_unsigned r
          else if c = CHR ''-'' then num_neg (parse_unsigned r)
          else parse_unsigned t)"

text \<open>
  \<open>Number(v)\<close>. An array is converted through its string form: the empty array gives
  the empty string, a one-element array the string of its element (empty for
  \<open>undefined\<close> and \<open>null\<close>), and the string of a longer array has a comma, which no
  numeric literal has.
\<close>

fun Number :: "jsval \<Rightarrow> jsnum" where
  "Number JUndefined = NaN"
| "Number JNull = Finite 0"
| "Number (JBool b) = (if b then Finite 1 else Finite 0)"
| "Number (JNum n) = n"
| "Number (JStr s) = StringToNumber s"
| "Number (JArr []) = Finite 0"
| "Number (JArr [JUndefined]) = Finite 0"
| "Number (JArr [JNull]) = Finite 0"
| "Number (JArr [JBool b]) = NaN"
| "Number (JArr [v]) = Number v"
| "Number (JArr (v # w # vs)) = NaN"

text \<open>\<open>n || 0\<close> on a number: \<open>NaN\<close> and 0 are falsy.\<close>

definition or_zero :: "jsnum \<Rightarrow> jsnum" where
  "or_zero n = (if truthy (JNum n) then n else Finite 0)"

fun num_add :: "jsnum \<Rightarrow> jsnum \<Rightarrow> jsnum" where
  "num_add NaN _ = NaN"
| "num_add _ NaN = NaN"
| "num_add (Finite a) (Finite b) = Finite (a + b)"
| "num_add PosInfinity NegInfinity = NaN"
| "num_add NegInfinity PosInfinity = NaN"
| "num_add PosInfinity _ = PosInfinity"
| "num_add _ PosInfinity = PosInfinity"
| "num_add NegInfinity _ = NegInfinity"
| "num_add _ NegInfinity = NegInfinity"

text \<open>
  \<open>parseFloat(x.toFixed(2))\<close>: \<open>toFixed\<close> prints \<open>NaN\<close>, the infinities and every
  number from \<open>1e21\<close> on in their ordinary string form, which \<open>parseFloat\<close> reads back;
  below that it rounds the magnitude to two decimals, a tie going up.
\<close>

fun round2 :: "jsnum \<Rightarrow> jsnum" where
  "round2 (Finite r) =
     (if 10 ^ 21 \<le> \<bar>r\<bar> then Finite r
      else if r < 0 then Finite (- (of_int \<lfloor>- r * 100 + 1 / 2\<rfloor> / 100))
      else Finite (of_int \<lfloor>r * 100 + 1 / 2\<rfloor> / 100))"
| "round2 n = n"

section \<open>The local state\<close>

record ScheduleParams =
  startMonth :: string
  endMonth :: string
  selectedPersonId :: string

record AppState =
  teachers :: "obj list"
  assistants :: "obj list"
  courses :: "obj list"
  sessions :: "obj list"
  scheduleParams :: ScheduleParams

section \<open>Remote calls and what the store does with their outcome\<close>

datatype js_error = JsError string

text \<open>
  A query of the remote client resolves to a response with a \<open>data\<close> and an \<open>error\<close>
  member: rows and no error, or no data and an error. The promise itself can also reject.
\<close>

datatype response = Success "obj list" | Failure js_error

datatype settled = Resolved response | Rejected js_error

fun data :: "response \<Rightarrow> obj list option" where
  "data (Success rows) = Some rows"
| "data (Failure e) = None"

fun error :: "response \<Rightarrow> js_error option" where
  "error (Success rows) = None"
| "error (Failure e) = Some e"

datatype cond = Eq string jsval | Neq string jsval

datatype request =
    Select string
  | Insert string "obj list"
  | Update string obj cond
  | Delete string cond

text \<open>
  What a call of the store does besides changing the local state, in order: the remote
  requests it issues, its console output, the alert it schedules with \<open>setTimeout\<close>, the
  loading flag it sets, and the rejection of its own promise when an awaited call throws
  outside a \<open>try\<close>.
\<close>

datatype event =
    Issue request
  | ConsoleError string js_error
  | ConsoleWarn string js_error
  | DeferredAlert nat js_error
  | SetIsLoading bool
  | Unhandled js_error

text \<open>\<open>const { error } = await q; if (error) console.error(label, error)\<close>\<close>

fun log_error :: "string \<Rightarrow> settled \<Rightarrow> event list" where
  "log_error label (Rejected e) = [Unhandled e]"
| "log_error label (Resolved r) =
     (case error r of None \<Rightarrow> [] | Some e \<Rightarrow> [ConsoleError label e])"

text \<open>The remote requests among the events, in the order they are issued.\<close>

fun requestsOf :: "event list \<Rightarrow> request list" where
  "requestsOf [] = []"
| "requestsOf (Issue r # es) = r # requestsOf es"
| "requestsOf (e # es) = requestsOf es"

section \<open>Course statistics\<close>

text \<open>\<open>sessions.filter(s => s.courseId === courseId)\<close>\<close>

definition sessionsOf :: "obj list \<Rightarrow> jsval \<Rightarrow> obj list" where
  "sessionsOf ss courseId = filter (\<lambda>s. strict_eq (fld s ''courseId'') courseId) ss"

text \<open>\<open>cs.reduce((sum, s) => sum + (Number(s.durationHours) || 0), 0)\<close>\<close>

definition sumHours :: "obj list \<Rightarrow> jsnum" where
  "sumHours cs =
     foldl (\<lambda>sum s. num_add sum (or_zero (Number (fld s ''durationHours'')))) (Finite 0) cs"

text \<open>\<open>{ ...c, sessionCount: cs.length, totalHours: parseFloat(totalHours.toFixed(2)) }\<close>\<close>

definition withStats :: "obj \<Rightarrow> obj list \<Rightarrow> obj" where
  "withStats c cs =
     AList.update ''totalHours'' (JNum (round2 (sumHours cs)))
       (AList.update ''sessionCount'' (JNum (Finite (of_nat (length cs)))) c)"

definition recalculateCourseStats :: "obj list \<Rightarrow> obj list \<Rightarrow> jsval \<Rightarrow> obj list" where
  "recalculateCourseStats cs ss courseId =
     map (\<lambda>c. if \<not> strict_eq (fld c ''id'') courseId then c
              else withStats c (sessionsOf ss courseId)) cs"

section \<open>Sessions\<close>

definition addSession :: "obj \<Rightarrow> settled \<Rightarrow> AppState \<Rightarrow> AppState \<times> event list" where
  "addSession s res prev =
     (let newSessions = sessions prev @ [s];
          updatedCourses = recalculateCourseStats (courses prev) newSessions (fld s ''courseId'')
      in (prev\<lparr>sessions := newSessions, courses := updatedCourses\<rparr>,
          Issue (Insert ''sessions'' [s]) # log_error ''Add Session Error (Cloud):'' res))"

definition updateSession :: "obj \<Rightarrow> settled \<Rightarrow> AppState \<Rightarrow> AppState \<times> event list" where
  "updateSession s res prev =
     (let oldSession = find (\<lambda>x. strict_eq (fld x ''id'') (fld s ''id'')) (sessions prev);
          newSessions = map (\<lambda>x. if strict_eq (fld x ''id'') (fld s ''id'') then s else x)
                          (sessions prev);
          updatedCourses = recalculateCourseStats (courses prev) newSessions (fld s ''courseId'');
          updatedCourses' =
            (case oldSession of
               None \<Rightarrow> updatedCourses
             | Some old \<Rightarrow>
                 if \<not> strict_eq (fld old ''courseId'') (fld s ''courseId'')
                 then recalculateCourseStats updatedCourses newSessions (fld old ''courseId'')
                 else updatedCourses)
      in (prev\<lparr>sessions := newSessions, courses := updatedCourses'\<rparr>,
          Issue (Update ''sessions'' (AList.delete ''id'' s) (Eq ''id'' (fld s ''id'')))
            # log_error ''Update Session Error (Cloud):'' res))"

definition deleteSession :: "string \<Rightarrow> settled \<Rightarrow> AppState \<Rightarrow> AppState \<times> event list" where
  "deleteSession i res prev =
     (let sessionToDelete = find (\<lambda>s. strict_eq (fld s ''id'') (JStr i)) (sessions prev);
          newSessions = filter (\<lambda>x. \<not> strict_eq (fld x ''id'') (JStr i)) (sessions prev);
          updatedCourses =
            (case sessionToDelete of
               None \<Rightarrow> courses prev
             | Some d \<Rightarrow> recalculateCourseStats (courses prev) newSessions (fld d ''courseId''))
      in (prev\<lparr>sessions := newSessions, courses := updatedCourses\<rparr>,
          Issue (Delete ''sessions'' (Eq ''id'' (JStr i)))
            # log_error ''Delete Session Error (Cloud):'' res))"

section \<open>People\<close>

definition updatePerson :: "obj \<Rightarrow> settled \<Rightarrow> AppState \<Rightarrow> AppState \<times> event list" where
  "updatePerson p res prev =
     ((if strict_eq (fld p ''type'') (JStr ''Teacher'')
       then prev\<lparr>teachers :=
              map (\<lambda>t. if strict_eq (fld t ''id'') (fld p ''id'') then p else t) (teachers prev)\<rparr>
       else prev\<lparr>assistants :=
              map (\<lambda>a. if strict_eq (fld a ''id'') (fld p ''id'') then p else a) (assistants prev)\<rparr>),
      Issue (Update ''people'' (AList.delete ''id'' p) (Eq ''id'' (fld p ''id'')))
        # log_error ''Update Person Error (Cloud):'' res)"

definition deletePerson :: "string \<Rightarrow> settled \<Rightarrow> AppState \<Rightarrow> AppState \<times> event list" where
  "deletePerson i res prev =
     (prev\<lparr>teachers := filter (\<lambda>t. \<not> strict_eq (fld t ''id'') (JStr i)) (teachers prev),
           assistants := filter (\<lambda>a. \<not> strict_eq (fld a ''id'') (JStr i)) (assistants prev)\<rparr>,
      Issue (Delete ''people'' (Eq ''id'' (JStr i))) # log_error ''Delete Person Error (Cloud):'' res)"

section \<open>Courses\<close>

text \<open>
  \<open>deleteCourse\<close> awaits the delete on the sessions table without reading its result,
  then deletes the course and logs that error. A rejection of the first call ends the
  function before the second is issued.
\<close>

definition deleteCourse ::
  "string \<Rightarrow> settled \<Rightarrow> settled \<Rightarrow> AppState \<Rightarrow> AppState \<times> event list" where
  "deleteCourse i sessionsRes coursesRes prev =
     (prev\<lparr>courses := filter (\<lambda>x. \<not> strict_eq (fld x ''id'') (JStr i)) (courses prev),
           sessions := filter (\<lambda>s. \<not> strict_eq (fld s ''courseId'') (JStr i)) (sessions prev)\<rparr>,
      Issue (Delete ''sessions'' (Eq ''courseId'' (JStr i)))
        # (case sessionsRes of
             Rejected e \<Rightarrow> [Unhandled e]
           | Resolved r \<Rightarrow>
               Issue (Delete ''courses'' (Eq ''id'' (JStr i)))
                 # log_error ''Delete Course Error (Cloud):'' coursesRes))"

section \<open>Import\<close>

datatype importKind = Teachers | Assistants | Courses | Sessions

datatype importMode = Append | Replace

text \<open>\<open>Array.isArray(v) ? v : (v ? [v] : [])\<close>\<close>

definition coerceIds :: "jsval \<Rightarrow> jsval" where
  "coerceIds v = (if isArray v then v else if truthy v then JArr [v] else JArr [])"

text \<open>\<open>v ? Number(v) : 0\<close>\<close>

definition numberOr0 :: "jsval \<Rightarrow> jsval" where
  "numberOr0 v = (if truthy v then JNum (Number v) else JNum (Finite 0))"

text \<open>
  The body of \<open>data.map(item => ...)\<close>. \<open>uuid\<close> is what \<open>crypto.randomUUID()\<close> returns
  for this item; it is called only when \<open>item.id\<close> is falsy.
\<close>

definition processItem :: "importKind \<Rightarrow> string \<Rightarrow> obj \<Rightarrow> obj" where
  "processItem type uuid item =
     (let newItem =
            AList.update ''id'' (if truthy (fld item ''id'') then fld item ''id'' else JStr uuid) item;
          newItem =
            (if type = Courses \<or> type = Sessions then
               AList.update ''assistantIds'' (coerceIds (fld item ''assistantIds''))
                 (AList.update ''teacherIds'' (coerceIds (fld item ''teacherIds'')) newItem)
             else
               AList.delete ''durationHours'' (AList.delete ''sequence''
                 (AList.delete ''totalHours'' (AList.delete ''sessionCount''
                   (AList.delete ''assistantIds'' (AList.delete ''teacherIds'' newItem))))));
          newItem =
            (if type = Sessions then
               AList.update ''durationHours'' (numberOr0 (fld item ''durationHours''))
                 (AList.update ''sequence'' (numberOr0 (fld item ''sequence'')) newItem)
             else if type \<noteq> Courses then
               AList.delete ''durationHours'' (AList.delete ''sequence'' newItem)
             else newItem);
          newItem =
            (if type = Courses then
               AList.update ''totalHours'' (JNum (Finite 0))
                 (AList.update ''sessionCount'' (JNum (Finite 0)) newItem)
             else newItem)
      in newItem)"

text \<open>\<open>uuidFor k\<close> is the identifier generated while item number \<open>k\<close> is processed.\<close>

definition processedData :: "importKind \<Rightarrow> (nat \<Rightarrow> string) \<Rightarrow> obj list \<Rightarrow> obj list" where
  "processedData type uuidFor items =
     map (\<lambda>(k, item). processItem type (uuidFor k) item) (enumerate 0 items)"

definition tableName :: "importKind \<Rightarrow> string" where
  "tableName type =
     (if type = Teachers \<or> type = Assistants then ''people''
      else if type = Courses then ''courses''
      else if type = Sessions then ''sessions''
      else [])"

text \<open>Step 2 of \<open>importData\<close>: the function given to \<open>setState\<close>.\<close>

definition importLocal :: "importKind \<Rightarrow> obj list \<Rightarrow> importMode \<Rightarrow> AppState \<Rightarrow> AppState" where
  "importLocal type newItems mode prev =
     (let newState =
            (if type = Teachers then
               prev\<lparr>teachers := (if mode = Replace then newItems else teachers prev @ newItems)\<rparr>
             else if type = Assistants then
               prev\<lparr>assistants := (if mode = Replace then newItems else assistants prev @ newItems)\<rparr>
             else if type = Courses then
               prev\<lparr>courses := (if mode = Replace then newItems else courses prev @ newItems)\<rparr>
             else if type = Sessions then
               prev\<lparr>sessions := (if mode = Replace then newItems else sessions prev @ newItems)\<rparr>
             else prev)
      in if type = Sessions then
           newState\<lparr>courses :=
             map (\<lambda>c. withStats c (sessionsOf (sessions newState) (fld c ''id''))) (courses newState)\<rparr>
         else newState)"

text \<open>
  Step 3 of \<open>importData\<close>: the \<open>try\<close> block and its \<open>catch\<close>. The result of the
  delete is awaited and dropped; the error of the insert is thrown. What is caught is
  logged and an alert is scheduled 100 ms later (the text of the alert, built from the
  error, is not modelled).
\<close>

definition caught :: "js_error \<Rightarrow> event list" where
  "caught e = [ConsoleError ''Cloud Sync Error (Import):'' e, DeferredAlert 100 e]"

definition importSync ::
  "importKind \<Rightarrow> obj list \<Rightarrow> importMode \<Rightarrow> settled \<Rightarrow> settled \<Rightarrow> event list" where
  "importSync type rows mode deleteRes insertRes =
     (let insert =
            Issue (Insert (tableName type) rows)
              # (case insertRes of
                   Rejected e \<Rightarrow> caught e
                 | Resolved r \<Rightarrow> (case error r of Some e \<Rightarrow> caught e | None \<Rightarrow> []))
      in if mode = Replace then
           Issue (if tableName type = ''people''
                  then Delete ''people''
                         (Eq ''type'' (JStr (if type = Teachers then ''Teacher'' else ''TA'')))
                  else Delete (tableName type)
                         (Neq ''id'' (JStr ''00000000-0000-0000-0000-000000000000'')))
             # (case deleteRes of Rejected e \<Rightarrow> caught e | Resolved r \<Rightarrow> insert)
         else insert)"

definition importData ::
  "importKind \<Rightarrow> obj list \<Rightarrow> importMode \<Rightarrow> (nat \<Rightarrow> string) \<Rightarrow> settled \<Rightarrow> settled
   \<Rightarrow> AppState \<Rightarrow> AppState \<times> event list" where
  "importData type items mode uuidFor deleteRes insertRes prev =
     (let rows = processedData type uuidFor items
      in (importLocal type rows mode prev, importSync type rows mode deleteRes insertRes))"

section \<open>Initial load\<close>

text \<open>\<open>res.data || []\<close>\<close>

definition rowsOrEmpty :: "response \<Rightarrow> obj list" where
  "rowsOrEmpty res = (case data res of None \<Rightarrow> [] | Some rows \<Rightarrow> rows)"

text \<open>\<open>if (res.error) console.warn(label, res.error)\<close>\<close>

definition warnIfError :: "string \<Rightarrow> response \<Rightarrow> event list" where
  "warnIfError label res = (case error res of None \<Rightarrow> [] | Some e \<Rightarrow> [ConsoleWarn label e])"

fun rejection :: "settled list \<Rightarrow> js_error option" where
  "rejection [] = None"
| "rejection (Rejected e # ps) = Some e"
| "rejection (Resolved r # ps) = rejection ps"

text \<open>
  \<open>fetchData\<close>: the three queries are created, and so issued, before \<open>Promise.all\<close>
  is awaited. When all three resolve, the state is set from their data and a warning is
  printed for each error. When one rejects, \<open>Promise.all\<close> rejects, the \<open>catch\<close> logs it
  and the state is not touched (of several rejections the model logs the first in
  argument order; the label of that log line is Chinese text in the source and is given
  in English here). \<open>finally\<close> clears the loading flag.
\<close>

definition fetchData ::
  "settled \<Rightarrow> settled \<Rightarrow> settled \<Rightarrow> AppState \<Rightarrow> AppState \<times> event list" where
  "fetchData peopleP coursesP sessionsP prev =
     (let start = [SetIsLoading True,
                   Issue (Select ''people''), Issue (Select ''courses''), Issue (Select ''sessions'')]
      in case (peopleP, coursesP, sessionsP) of
           (Resolved peopleRes, Resolved coursesRes, Resolved sessionsRes) \<Rightarrow>
             (let people = rowsOrEmpty peopleRes;
                  coursesRaw = rowsOrEmpty coursesRes;
                  sessions' = rowsOrEmpty sessionsRes;
                  courses' = map (\<lambda>c. withStats c (sessionsOf sessions' (fld c ''id''))) coursesRaw
              in (prev\<lparr>teachers := filter (\<lambda>p. strict_eq (fld p ''type'') (JStr ''Teacher'')) people,
                        assistants := filter (\<lambda>p. strict_eq (fld p ''type'') (JStr ''TA'')) people,
                        courses := courses',
                        sessions := sessions'\<rparr>,
                  start @ warnIfError ''Fetch People Error (Cloud):'' peopleRes
                        @ warnIfError ''Fetch Courses Error (Cloud):'' coursesRes
                        @ warnIfError ''Fetch Sessions Error (Cloud):'' sessionsRes
                        @ [SetIsLoading False]))
         | _ \<Rightarrow>
             (prev,
              start @ (case rejection [peopleP, coursesP, sessionsP] of
                         None \<Rightarrow> []
                       | Some e \<Rightarrow> [ConsoleError ''Data load failed:'' e])
                    @ [SetIsLoading False]))"

section \<open>Properties of the store\<close>

subsection \<open>Consistency of the derived course statistics\<close>

text \<open>
  A course is consistent with a session collection when its \<open>sessionCount\<close> is the
  number of sessions whose \<open>courseId\<close> is the course's \<open>id\<close> and its \<open>totalHours\<close> is the
  rounded sum of their durations.
\<close>

definition courseOk :: "obj list \<Rightarrow> obj \<Rightarrow> bool" where
  "courseOk ss c =
     (fld c ''sessionCount'' = JNum (Finite (of_nat (length (sessionsOf ss (fld c ''id'')))))
      \<and> fld c ''totalHours'' = JNum (round2 (sumHours (sessionsOf ss (fld c ''id'')))))"

definition statsConsistent :: "AppState \<Rightarrow> bool" where
  "statsConsistent st = (\<forall>c \<in> set (courses st). courseOk (sessions st) c)"

definition sessionIdsUnique :: "AppState \<Rightarrow> bool" where
  "sessionIdsUnique st = distinct (map (\<lambda>s. fld s ''id'') (sessions st))"

text \<open>A call of one of the three session operations, with the outcome of its remote call.\<close>

datatype sessionOp =
    AddSession obj settled
  | UpdateSession obj settled
  | DeleteSession string settled

fun applyOp :: "sessionOp \<Rightarrow> AppState \<Rightarrow> AppState" where
  "applyOp (AddSession s r) st = fst (addSession s r st)"
| "applyOp (UpdateSession s r) st = fst (updateSession s r st)"
| "applyOp (DeleteSession i r) st = fst (deleteSession i r st)"

text \<open>The states after each operation of a sequence, in order.\<close>

fun statesAfter :: "AppState \<Rightarrow> sessionOp list \<Rightarrow> AppState list" where
  "statesAfter st [] = []"
| "statesAfter st (op # ops) = applyOp op st # statesAfter (applyOp op st) ops"

text \<open>Every added session carries an identifier that no session of the state has.\<close>

fun opFresh :: "AppState \<Rightarrow> sessionOp \<Rightarrow> bool" where
  "opFresh st (AddSession s r) = (fld s ''id'' \<notin> set (map (\<lambda>x. fld x ''id'') (sessions st)))"
| "opFresh st (UpdateSession s r) = True"
| "opFresh st (DeleteSession i r) = True"

fun freshAdds :: "AppState \<Rightarrow> sessionOp list \<Rightarrow> bool" where
  "freshAdds st [] = True"
| "freshAdds st (op # ops) = (opFresh st op \<and> freshAdds (applyOp op st) ops)"

subsection \<open>Example data\<close>

definition exState :: "obj list \<Rightarrow> obj list \<Rightarrow> obj list \<Rightarrow> obj list \<Rightarrow> AppState" where
  "exState ts as cs ss =
     \<lparr>teachers = ts, assistants = as, courses = cs, sessions = ss,
      scheduleParams = \<lparr>startMonth = ''2026-01'', endMonth = [], selectedPersonId = []\<rparr>\<rparr>"

definition exCourse :: "string \<Rightarrow> nat \<Rightarrow> rat \<Rightarrow> obj" where
  "exCourse i n h =
     [(''id'', JStr i), (''sessionCount'', JNum (Finite (of_nat n))), (''totalHours'', JNum (Finite h))]"

definition exSession :: "string \<Rightarrow> string \<Rightarrow> rat \<Rightarrow> obj" where
  "exSession i c h = [(''id'', JStr i), (''courseId'', JStr c), (''durationHours'', JNum (Finite h))]"

definition exPerson :: "string \<Rightarrow> string \<Rightarrow> string \<Rightarrow> obj" where
  "exPerson i t n = [(''id'', JStr i), (''type'', JStr t), (''name'', JStr n)]"

definition ok :: settled where
  "ok = Resolved (Success [])"

definition failed :: settled where
  "failed = Resolved (Failure (JsError ''permission denied''))"

definition exMoveState :: AppState where
  "exMoveState =
     exState [] [] [exCourse ''A'' 1 2, exCourse ''B'' 0 0]
       [exSession ''s1'' ''A'' 2]"

definition exDupState :: AppState where
  "exDupState =
     exState [] [] [exCourse ''A'' 1 1, exCourse ''B'' 0 0, exCourse ''C'' 1 1]
       [exSession ''s1'' ''C'' 1, exSession ''s1'' ''A'' 1]"

definition exRoster :: AppState where
  "exRoster =
     exState [exPerson ''p1'' ''Teacher'' ''Ann''] [exPerson ''p2'' ''TA'' ''Bob'']
       [exCourse ''A'' 1 2, exCourse ''B'' 1 1]
       [exSession ''s1'' ''A'' 2, exSession ''s2'' ''B'' 1]"

text \<open>
  Two raw import rows: one with an identifier and stray course and session fields, one
  without an identifier, with a list of assistants and neither \<open>sequence\<close> nor
  \<open>durationHours\<close>.
\<close>

definition exRows :: "obj list" where
  "exRows =
     [[(''id'', JStr ''r1''), (''name'', JStr ''Eve''), (''sessionCount'', JNum (Finite 4)),
       (''durationHours'', JStr ''2''), (''teacherIds'', JStr ''p1'')],
      [(''courseId'', JStr ''A''), (''assistantIds'', JArr [JStr ''p2'', JStr ''p3''])]]"

definition exUuid :: "nat \<Rightarrow> string" where
  "exUuid k = (if k = 0 then ''uuid-0'' else ''uuid-1'')"

subsection \<open>Reading the events and the import\<close>

fun isDelete :: "request \<Rightarrow> bool" where
  "isDelete (Delete t c) = True"
| "isDelete r = False"

text \<open>The values given to \<open>setIsLoading\<close>, in order.\<close>

fun loadingFlags :: "event list \<Rightarrow> bool list" where
  "loadingFlags [] = []"
| "loadingFlags (SetIsLoading b # es) = b # loadingFlags es"
| "loadingFlags (e # es) = loadingFlags es"

fun isRejected :: "settled \<Rightarrow> bool" where
  "isRejected (Rejected e) = True"
| "isRejected (Resolved r) = False"

text \<open>The fields of the course and session schemas that a person record must not carry.\<close>

definition strayFields :: "string list" where
  "strayFields =
     [''teacherIds'', ''assistantIds'', ''sessionCount'', ''totalHours'', ''sequence'', ''durationHours'']"

text \<open>The first step of \<open>processItem\<close>, \<open>{ ...item, id: item.id || crypto.randomUUID() }\<close>.\<close>

definition withId :: "string \<Rightarrow> obj \<Rightarrow> obj" where
  "withId uuid item =
     AList.update ''id'' (if truthy (fld item ''id'') then fld item ''id'' else JStr uuid) item"

section \<open>Lemmas about values and objects\<close>

lemma strict_eq_imp_eq: "strict_eq a b \<Longrightarrow> a = b"
  by (simp add: strict_eq_def)

lemma strict_eq_sym: "strict_eq a b \<Longrightarrow> strict_eq b a"
  by (auto simp: strict_eq_def)

lemma strict_eq_trans: "strict_eq a b \<Longrightarrow> strict_eq b c \<Longrightarrow> strict_eq a c"
  by (auto simp: strict_eq_def)

lemma strict_eq_JStr: "strict_eq v (JStr s) = (v = JStr s)"
  by (auto simp: strict_eq_def)

lemma fld_update: "fld (AList.update k v ob) k' = (if k' = k then v else fld ob k')"
  by (simp add: fld_def update_conv')

lemma fld_withStats_id: "fld (withStats c cs) ''id'' = fld c ''id''"
  by (simp add: withStats_def fld_update)

lemma fld_withStats_sessionCount:
  "fld (withStats c cs) ''sessionCount'' = JNum (Finite (of_nat (length cs)))"
  by (simp add: withStats_def fld_update)

lemma fld_withStats_totalHours:
  "fld (withStats c cs) ''totalHours'' = JNum (round2 (sumHours cs))"
  by (simp add: withStats_def fld_update)

lemma filter_map_unchanged:
  "\<forall>x \<in> set xs. f x = x \<or> (\<not> P x \<and> \<not> P (f x)) \<Longrightarrow> filter P (map f xs) = filter P xs"
  by (induction xs) auto

lemma filter_filter_unchanged:
  "\<forall>x \<in> set xs. P x \<longrightarrow> Q x \<Longrightarrow> filter P (filter Q xs) = filter P xs"
  by (induction xs) auto

lemma unique_id:
  assumes "distinct (map (\<lambda>s. fld s ''id'') ss)" "x \<in> set ss" "y \<in> set ss"
    "fld x ''id'' = fld y ''id''"
  shows "x = y"
  using assms by (meson distinct_map inj_onD)

lemma find_SomeD: "find P xs = Some x \<Longrightarrow> x \<in> set xs \<and> P x"
  by (induction xs) (auto split: if_splits)

lemma find_None_all: "find P xs = None \<Longrightarrow> \<forall>x \<in> set xs. \<not> P x"
  by (simp add: find_None_iff)

section \<open>Recomputing one course\<close>

lemma recalc_target:
  assumes "c' \<in> set (recalculateCourseStats cs ss t)" and "strict_eq (fld c' ''id'') t"
  shows "courseOk ss c'"
proof -
  from assms(1) obtain c where c: "c \<in> set cs"
    and c': "c' = (if \<not> strict_eq (fld c ''id'') t then c else withStats c (sessionsOf ss t))"
    by (auto simp: recalculateCourseStats_def)
  from c' assms(2) have eq: "strict_eq (fld c ''id'') t"
    by (auto simp: fld_withStats_id split: if_splits)
  then have "fld c ''id'' = t" by (rule strict_eq_imp_eq)
  with c' eq show ?thesis
    by (simp add: courseOk_def fld_withStats_id fld_withStats_sessionCount fld_withStats_totalHours)
qed

lemma recalc_other:
  assumes "c' \<in> set (recalculateCourseStats cs ss t)" and "\<not> strict_eq (fld c' ''id'') t"
  shows "c' \<in> set cs"
  using assms by (auto simp: recalculateCourseStats_def fld_withStats_id split: if_splits)

lemma recalc_step:
  assumes "\<forall>c \<in> set cs.
      \<not> strict_eq (fld c ''id'') t \<longrightarrow> \<not> strict_eq (fld c ''id'') u \<longrightarrow> courseOk ss' c"
  shows "\<forall>c \<in> set (recalculateCourseStats cs ss' t).
      \<not> strict_eq (fld c ''id'') u \<longrightarrow> courseOk ss' c"
proof (intro ballI impI)
  fix c'
  assume m: "c' \<in> set (recalculateCourseStats cs ss' t)" and nu: "\<not> strict_eq (fld c' ''id'') u"
  show "courseOk ss' c'"
  proof (cases "strict_eq (fld c' ''id'') t")
    case True
    with m show ?thesis by (rule recalc_target)
  next
    case False
    with m have "c' \<in> set cs" by (rule recalc_other)
    with assms False nu show ?thesis by blast
  qed
qed

lemma recalc_preserves:
  assumes inv: "\<forall>c \<in> set cs. \<not> strict_eq (fld c ''id'') t \<longrightarrow> courseOk ss' c"
  shows "\<forall>c \<in> set (recalculateCourseStats cs ss' t). courseOk ss' c"
proof
  fix c'
  assume m: "c' \<in> set (recalculateCourseStats cs ss' t)"
  show "courseOk ss' c'"
  proof (cases "strict_eq (fld c' ''id'') t")
    case True
    with m show ?thesis by (rule recalc_target)
  next
    case False
    with m have "c' \<in> set cs" by (rule recalc_other)
    with inv False show ?thesis by blast
  qed
qed

section \<open>The session operations keep the statistics consistent\<close>

lemma addSession_consistent:
  assumes "statsConsistent st"
  shows "statsConsistent (fst (addSession s r st))"
proof -
  let ?ss' = "sessions st @ [s]"
  have "\<forall>c \<in> set (courses st). \<not> strict_eq (fld c ''id'') (fld s ''courseId'') \<longrightarrow> courseOk ?ss' c"
  proof (intro ballI impI)
    fix c assume c: "c \<in> set (courses st)" and n: "\<not> strict_eq (fld c ''id'') (fld s ''courseId'')"
    from n have "\<not> strict_eq (fld s ''courseId'') (fld c ''id'')" by (blast dest: strict_eq_sym)
    then have "sessionsOf ?ss' (fld c ''id'') = sessionsOf (sessions st) (fld c ''id'')"
      by (simp add: sessionsOf_def)
    moreover from assms c have "courseOk (sessions st) c" by (simp add: statsConsistent_def)
    ultimately show "courseOk ?ss' c" by (simp add: courseOk_def)
  qed
  then have "\<forall>c \<in> set (recalculateCourseStats (courses st) ?ss' (fld s ''courseId'')). courseOk ?ss' c"
    by (rule recalc_preserves)
  then show ?thesis by (simp add: addSession_def statsConsistent_def Let_def)
qed

lemma deleteSession_consistent:
  assumes inv: "statsConsistent st" and uniq: "sessionIdsUnique st"
  shows "statsConsistent (fst (deleteSession i r st))"
proof (cases "find (\<lambda>s. strict_eq (fld s ''id'') (JStr i)) (sessions st)")
  case None
  then have "\<forall>x \<in> set (sessions st). \<not> strict_eq (fld x ''id'') (JStr i)" by (rule find_None_all)
  then have "filter (\<lambda>x. \<not> strict_eq (fld x ''id'') (JStr i)) (sessions st) = sessions st"
    by (simp add: filter_id_conv)
  with None inv show ?thesis by (simp add: deleteSession_def statsConsistent_def Let_def)
next
  case (Some d)
  let ?ss' = "filter (\<lambda>x. \<not> strict_eq (fld x ''id'') (JStr i)) (sessions st)"
  from Some have d: "d \<in> set (sessions st)" "strict_eq (fld d ''id'') (JStr i)"
    by (auto dest: find_SomeD)
  have "\<forall>c \<in> set (courses st). \<not> strict_eq (fld c ''id'') (fld d ''courseId'') \<longrightarrow> courseOk ?ss' c"
  proof (intro ballI impI)
    fix c assume c: "c \<in> set (courses st)" and n: "\<not> strict_eq (fld c ''id'') (fld d ''courseId'')"
    have "\<forall>x \<in> set (sessions st). strict_eq (fld x ''courseId'') (fld c ''id'') \<longrightarrow> \<not> strict_eq (fld x ''id'') (JStr i)"
    proof (intro ballI impI notI)
      fix x assume x: "x \<in> set (sessions st)" and p: "strict_eq (fld x ''courseId'') (fld c ''id'')"
        and q: "strict_eq (fld x ''id'') (JStr i)"
      from q d(2) have "fld x ''id'' = fld d ''id''" by (simp add: strict_eq_def)
      with uniq x d(1) have "x = d" unfolding sessionIdsUnique_def by (rule unique_id)
      with p n show False by (blast dest: strict_eq_sym)
    qed
    then have "sessionsOf ?ss' (fld c ''id'') = sessionsOf (sessions st) (fld c ''id'')"
      unfolding sessionsOf_def by (rule filter_filter_unchanged)
    moreover from inv c have "courseOk (sessions st) c" by (simp add: statsConsistent_def)
    ultimately show "courseOk ?ss' c" by (simp add: courseOk_def)
  qed
  then have "\<forall>c \<in> set (recalculateCourseStats (courses st) ?ss' (fld d ''courseId'')). courseOk ?ss' c"
    by (rule recalc_preserves)
  with Some show ?thesis by (simp add: deleteSession_def statsConsistent_def Let_def)
qed

lemma updateSession_consistent:
  assumes inv: "statsConsistent st" and uniq: "sessionIdsUnique st"
  shows "statsConsistent (fst (updateSession s r st))"
proof (cases "find (\<lambda>x. strict_eq (fld x ''id'') (fld s ''id'')) (sessions st)")
  case None
  then have "\<forall>x \<in> set (sessions st). \<not> strict_eq (fld x ''id'') (fld s ''id'')"
    by (rule find_None_all)
  then have same: "map (\<lambda>x. if strict_eq (fld x ''id'') (fld s ''id'') then s else x) (sessions st)
      = sessions st"
    by (simp add: map_idI)
  from inv have "\<forall>c \<in> set (courses st).
      \<not> strict_eq (fld c ''id'') (fld s ''courseId'') \<longrightarrow> courseOk (sessions st) c"
    by (simp add: statsConsistent_def)
  then have "\<forall>c \<in> set (recalculateCourseStats (courses st) (sessions st) (fld s ''courseId'')).
      courseOk (sessions st) c"
    by (rule recalc_preserves)
  with None same show ?thesis by (simp add: updateSession_def statsConsistent_def Let_def)
next
  case (Some old)
  let ?f = "\<lambda>x. if strict_eq (fld x ''id'') (fld s ''id'') then s else x"
  let ?ss' = "map ?f (sessions st)"
  let ?A = "fld old ''courseId''" and ?B = "fld s ''courseId''"
  from Some have old: "old \<in> set (sessions st)" "strict_eq (fld old ''id'') (fld s ''id'')"
    by (auto dest: find_SomeD)
  have others: "\<forall>c \<in> set (courses st).
      \<not> strict_eq (fld c ''id'') ?B \<longrightarrow> \<not> strict_eq (fld c ''id'') ?A \<longrightarrow> courseOk ?ss' c"
  proof (intro ballI impI)
    fix c assume c: "c \<in> set (courses st)" and nB: "\<not> strict_eq (fld c ''id'') ?B"
      and nA: "\<not> strict_eq (fld c ''id'') ?A"
    have "\<forall>x \<in> set (sessions st). ?f x = x \<or>
        (\<not> strict_eq (fld x ''courseId'') (fld c ''id'') \<and> \<not> strict_eq (fld (?f x) ''courseId'') (fld c ''id''))"
    proof
      fix x assume x: "x \<in> set (sessions st)"
      show "?f x = x \<or>
        (\<not> strict_eq (fld x ''courseId'') (fld c ''id'') \<and> \<not> strict_eq (fld (?f x) ''courseId'') (fld c ''id''))"
      proof (cases "strict_eq (fld x ''id'') (fld s ''id'')")
        case False then show ?thesis by simp
      next
        case True
        with old(2) have "fld x ''id'' = fld old ''id''" by (simp add: strict_eq_def)
        with uniq x old(1) have "x = old" unfolding sessionIdsUnique_def by (rule unique_id)
        with True nA nB show ?thesis by (auto dest: strict_eq_sym)
      qed
    qed
    then have "sessionsOf ?ss' (fld c ''id'') = sessionsOf (sessions st) (fld c ''id'')"
      unfolding sessionsOf_def by (rule filter_map_unchanged)
    moreover from inv c have "courseOk (sessions st) c" by (simp add: statsConsistent_def)
    ultimately show "courseOk ?ss' c" by (simp add: courseOk_def)
  qed
  show ?thesis
  proof (cases "strict_eq ?A ?B")
    case True
    have "\<forall>c \<in> set (courses st). \<not> strict_eq (fld c ''id'') ?B \<longrightarrow> courseOk ?ss' c"
      using others True by (blast intro: strict_eq_trans)
    then have "\<forall>c \<in> set (recalculateCourseStats (courses st) ?ss' ?B). courseOk ?ss' c"
      by (rule recalc_preserves)
    with Some True show ?thesis by (simp add: updateSession_def statsConsistent_def Let_def)
  next
    case False
    from others have "\<forall>c \<in> set (recalculateCourseStats (courses st) ?ss' ?B).
        \<not> strict_eq (fld c ''id'') ?A \<longrightarrow> courseOk ?ss' c"
      by (rule recalc_step)
    then have "\<forall>c \<in> set (recalculateCourseStats (recalculateCourseStats (courses st) ?ss' ?B) ?ss' ?A).
        courseOk ?ss' c"
      by (rule recalc_preserves)
    with Some False show ?thesis by (simp add: updateSession_def statsConsistent_def Let_def)
  qed
qed

lemma addSession_unique:
  "sessionIdsUnique st \<Longrightarrow> fld s ''id'' \<notin> set (map (\<lambda>x. fld x ''id'') (sessions st))
   \<Longrightarrow> sessionIdsUnique (fst (addSession s r st))"
  by (simp add: sessionIdsUnique_def addSession_def Let_def)

lemma updateSession_unique:
  assumes "sessionIdsUnique st"
  shows "sessionIdsUnique (fst (updateSession s r st))"
proof -
  have eq: "map (\<lambda>x. fld x ''id'') (map (\<lambda>x. if strict_eq (fld x ''id'') (fld s ''id'') then s else x) (sessions st))
      = map (\<lambda>x. fld x ''id'') (sessions st)"
    by (auto dest: strict_eq_imp_eq)
  from assms have "distinct (map (\<lambda>x. fld x ''id'')
      (map (\<lambda>x. if strict_eq (fld x ''id'') (fld s ''id'') then s else x) (sessions st)))"
    by (simp only: eq sessionIdsUnique_def)
  then show ?thesis by (simp add: sessionIdsUnique_def updateSession_def Let_def)
qed

lemma deleteSession_unique:
  "sessionIdsUnique st \<Longrightarrow> sessionIdsUnique (fst (deleteSession i r st))"
  by (simp add: sessionIdsUnique_def deleteSession_def Let_def distinct_map_filter)

lemma applyOp_consistent:
  "statsConsistent st \<Longrightarrow> sessionIdsUnique st \<Longrightarrow> statsConsistent (applyOp op st)"
  by (cases op) (simp_all add: addSession_consistent updateSession_consistent deleteSession_consistent)

lemma applyOp_unique:
  "sessionIdsUnique st \<Longrightarrow> opFresh st op \<Longrightarrow> sessionIdsUnique (applyOp op st)"
  by (cases op) (simp_all add: addSession_unique updateSession_unique deleteSession_unique)

text \<open>
  Claim C1, as the code has it. Starting from a state whose course statistics are
  consistent and whose sessions have pairwise different identifiers, after each
  operation of a sequence of \<open>addSession\<close>, \<open>updateSession\<close> and \<open>deleteSession\<close> calls in
  which every added session brings an identifier not yet present, every course of the
  local state has \<open>sessionCount\<close> equal to the number of sessions that reference it and
  \<open>totalHours\<close> equal to the rounded sum of their durations (a missing or non-numeric
  duration counting as 0).
\<close>

theorem session_ops_keep_stats:
  "statsConsistent st \<Longrightarrow> sessionIdsUnique st \<Longrightarrow> freshAdds st ops
   \<Longrightarrow> \<forall>st' \<in> set (statesAfter st ops). statsConsistent st'"
proof (induction ops arbitrary: st)
  case Nil
  then show ?case by simp
next
  case (Cons op ops)
  from Cons.prems have a: "statsConsistent (applyOp op st)"
    by (simp add: applyOp_consistent)
  from Cons.prems have b: "sessionIdsUnique (applyOp op st)"
    by (simp add: applyOp_unique)
  from Cons.prems have c: "freshAdds (applyOp op st) ops" by simp
  from Cons.IH [OF a b c] a show ?case by simp
qed

text \<open>
  The theorem at the scenario of the specification: a course without sessions, then a
  session of 1.5 hours and one of 2.333 hours are added, and the first is deleted again.
\<close>

theorem session_ops_keep_stats_witness:
  "statsConsistent (exState [] [] [exCourse ''C1'' 0 0] [])
   \<and> sessionIdsUnique (exState [] [] [exCourse ''C1'' 0 0] [])
   \<and> freshAdds (exState [] [] [exCourse ''C1'' 0 0] [])
        [AddSession (exSession ''s1'' ''C1'' (3 / 2)) ok,
         AddSession (exSession ''s2'' ''C1'' (2333 / 1000)) failed,
         DeleteSession ''s1'' ok]
   \<and> list_all statsConsistent
        (statesAfter (exState [] [] [exCourse ''C1'' 0 0] [])
           [AddSession (exSession ''s1'' ''C1'' (3 / 2)) ok,
            AddSession (exSession ''s2'' ''C1'' (2333 / 1000)) failed,
            DeleteSession ''s1'' ok])"
proof -
  have a: "statsConsistent (exState [] [] [exCourse ''C1'' 0 0] [])"
    by code_simp
  have b: "sessionIdsUnique (exState [] [] [exCourse ''C1'' 0 0] [])"
    by code_simp
  have c: "freshAdds (exState [] [] [exCourse ''C1'' 0 0] [])
        [AddSession (exSession ''s1'' ''C1'' (3 / 2)) ok,
         AddSession (exSession ''s2'' ''C1'' (2333 / 1000)) failed,
         DeleteSession ''s1'' ok]"
    by code_simp
  from session_ops_keep_stats [OF a b c]
  have "list_all statsConsistent
        (statesAfter (exState [] [] [exCourse ''C1'' 0 0] [])
           [AddSession (exSession ''s1'' ''C1'' (3 / 2)) ok,
            AddSession (exSession ''s2'' ''C1'' (2333 / 1000)) failed,
            DeleteSession ''s1'' ok])"
    by (simp only: list_all_iff)
  with a b c show ?thesis by blast
qed

text \<open>
  Without the condition on the identifiers the invariant fails: two sessions with the same
  identifier are added to two courses and that identifier is deleted. \<open>deleteSession\<close>
  removes both sessions and recomputes only the course of the first one it finds, so
  course \<open>C\<close> keeps a count of 1 with no session left.
\<close>

theorem session_ops_duplicate_id_counterexample:
  "statsConsistent (exState [] [] [exCourse ''A'' 0 0, exCourse ''C'' 0 0] [])
   \<and> \<not> statsConsistent
         (last (statesAfter (exState [] [] [exCourse ''A'' 0 0, exCourse ''C'' 0 0] [])
            [AddSession (exSession ''s1'' ''A'' 1) ok,
             AddSession (exSession ''s1'' ''C'' 1) ok,
             DeleteSession ''s1'' ok]))"
  by code_simp

section \<open>Moving a session to another course\<close>

text \<open>
  Claim C3, as the code has it. When \<open>updateSession\<close> is called with a session whose
  identifier is stored, let \<open>old\<close> be the stored session it finds for that identifier
  (the first one; the only one when identifiers are unique). If the new \<open>courseId\<close>
  differs from the one of \<open>old\<close>, then after the call every course whose \<open>id\<close> is the
  old or the new \<open>courseId\<close> has \<open>sessionCount\<close> and \<open>totalHours\<close> computed from the
  session collection after the update.
\<close>

theorem updateSession_recomputes_both:
  assumes found: "find (\<lambda>x. strict_eq (fld x ''id'') (fld s ''id'')) (sessions st) = Some old"
    and moved: "\<not> strict_eq (fld old ''courseId'') (fld s ''courseId'')"
  shows "\<forall>c \<in> set (courses (fst (updateSession s r st))).
           strict_eq (fld c ''id'') (fld old ''courseId'') \<or> strict_eq (fld c ''id'') (fld s ''courseId'')
           \<longrightarrow> courseOk (sessions (fst (updateSession s r st))) c"
proof (intro ballI impI)
  let ?ss' = "map (\<lambda>x. if strict_eq (fld x ''id'') (fld s ''id'') then s else x) (sessions st)"
  let ?inner = "recalculateCourseStats (courses st) ?ss' (fld s ''courseId'')"
  fix c
  assume c: "c \<in> set (courses (fst (updateSession s r st)))"
    and ab: "strict_eq (fld c ''id'') (fld old ''courseId'') \<or> strict_eq (fld c ''id'') (fld s ''courseId'')"
  from found moved have cs: "courses (fst (updateSession s r st))
      = recalculateCourseStats ?inner ?ss' (fld old ''courseId'')"
    by (simp add: updateSession_def Let_def)
  have ss: "sessions (fst (updateSession s r st)) = ?ss'"
    by (simp add: updateSession_def Let_def)
  from c cs have m: "c \<in> set (recalculateCourseStats ?inner ?ss' (fld old ''courseId''))" by simp
  have "courseOk ?ss' c"
  proof (cases "strict_eq (fld c ''id'') (fld old ''courseId'')")
    case True
    with m show ?thesis by (rule recalc_target)
  next
    case False
    with m have "c \<in> set ?inner" by (rule recalc_other)
    moreover from False ab have "strict_eq (fld c ''id'') (fld s ''courseId'')" by simp
    ultimately show ?thesis by (rule recalc_target)
  qed
  with ss show "courseOk (sessions (fst (updateSession s r st))) c" by simp
qed

text \<open>Session \<open>s1\<close> of 2 hours moves from course \<open>A\<close> to course \<open>B\<close> and now lasts 3 hours.\<close>

theorem updateSession_recomputes_both_witness:
  "find (\<lambda>x. strict_eq (fld x ''id'') (fld (exSession ''s1'' ''B'' 3) ''id'')) (sessions exMoveState)
     = Some (exSession ''s1'' ''A'' 2)
   \<and> \<not> strict_eq (fld (exSession ''s1'' ''A'' 2) ''courseId'') (fld (exSession ''s1'' ''B'' 3) ''courseId'')
   \<and> courses (fst (updateSession (exSession ''s1'' ''B'' 3) ok exMoveState))
       = [exCourse ''A'' 0 0, exCourse ''B'' 1 3]
   \<and> list_all (courseOk (sessions (fst (updateSession (exSession ''s1'' ''B'' 3) ok exMoveState))))
       (courses (fst (updateSession (exSession ''s1'' ''B'' 3) ok exMoveState)))"
proof -
  have a: "find (\<lambda>x. strict_eq (fld x ''id'') (fld (exSession ''s1'' ''B'' 3) ''id'')) (sessions exMoveState)
     = Some (exSession ''s1'' ''A'' 2)"
    by code_simp
  have b: "\<not> strict_eq (fld (exSession ''s1'' ''A'' 2) ''courseId'') (fld (exSession ''s1'' ''B'' 3) ''courseId'')"
    by code_simp
  have c: "courses (fst (updateSession (exSession ''s1'' ''B'' 3) ok exMoveState))
       = [exCourse ''A'' 0 0, exCourse ''B'' 1 3]"
    by code_simp
  have d: "list_all (\<lambda>c. strict_eq (fld c ''id'') (fld (exSession ''s1'' ''A'' 2) ''courseId'')
              \<or> strict_eq (fld c ''id'') (fld (exSession ''s1'' ''B'' 3) ''courseId''))
            (courses (fst (updateSession (exSession ''s1'' ''B'' 3) ok exMoveState)))"
    by code_simp
  from updateSession_recomputes_both [OF a b, of ok] d
  have "list_all (courseOk (sessions (fst (updateSession (exSession ''s1'' ''B'' 3) ok exMoveState))))
       (courses (fst (updateSession (exSession ''s1'' ''B'' 3) ok exMoveState)))"
    unfolding list_all_iff by blast
  with a b c show ?thesis by blast
qed

text \<open>
  For a stored session that is not the first with its identifier the claim fails: two
  sessions share the identifier \<open>s1\<close>, the first in course \<open>C\<close>, the second in course
  \<open>A\<close>. Updating \<open>s1\<close> to course \<open>B\<close> replaces both, recomputes \<open>B\<close> and \<open>C\<close>, and leaves
  course \<open>A\<close> with a count of 1 although no session references it any more.
\<close>

theorem updateSession_duplicate_id_counterexample:
  "exSession ''s1'' ''A'' 1 \<in> set (sessions exDupState)
   \<and> strict_eq (fld (exSession ''s1'' ''A'' 1) ''id'') (fld (exSession ''s1'' ''B'' 1) ''id'')
   \<and> \<not> strict_eq (fld (exSession ''s1'' ''A'' 1) ''courseId'') (fld (exSession ''s1'' ''B'' 1) ''courseId'')
   \<and> sessions (fst (updateSession (exSession ''s1'' ''B'' 1) ok exDupState))
       = [exSession ''s1'' ''B'' 1, exSession ''s1'' ''B'' 1]
   \<and> courses (fst (updateSession (exSession ''s1'' ''B'' 1) ok exDupState))
       = [exCourse ''A'' 1 1, exCourse ''B'' 2 2, exCourse ''C'' 0 0]
   \<and> \<not> courseOk (sessions (fst (updateSession (exSession ''s1'' ''B'' 1) ok exDupState)))
         (exCourse ''A'' 1 1)"
  by code_simp

lemma requestsOf_log_error: "requestsOf (log_error label r) = []"
  by (cases r) (auto split: option.splits)

section \<open>Deleting a course\<close>

text \<open>
  Claim C2. \<open>deleteCourse i\<close> keeps exactly the courses whose \<open>id\<close> is not \<open>i\<close>, each
  record as it was, and exactly the sessions whose \<open>courseId\<close> is not \<open>i\<close>; the first
  thing it does remotely is the delete on the sessions table, and the delete of the course
  follows it (it is not issued when the first call throws).
\<close>

theorem deleteCourse_cascade:
  "courses (fst (deleteCourse i r1 r2 st)) = filter (\<lambda>c. fld c ''id'' \<noteq> JStr i) (courses st)
   \<and> sessions (fst (deleteCourse i r1 r2 st))
       = filter (\<lambda>s. fld s ''courseId'' \<noteq> JStr i) (sessions st)
   \<and> teachers (fst (deleteCourse i r1 r2 st)) = teachers st
   \<and> assistants (fst (deleteCourse i r1 r2 st)) = assistants st
   \<and> requestsOf (snd (deleteCourse i r1 r2 st))
       = Delete ''sessions'' (Eq ''courseId'' (JStr i))
         # (case r1 of Rejected e \<Rightarrow> [] | Resolved r \<Rightarrow> [Delete ''courses'' (Eq ''id'' (JStr i))])"
  by (cases r1) (simp_all add: deleteCourse_def strict_eq_JStr requestsOf_log_error)

theorem deleteCourse_cascade_witness:
  "courses (fst (deleteCourse ''A'' failed ok exRoster)) = [exCourse ''B'' 1 1]
   \<and> sessions (fst (deleteCourse ''A'' failed ok exRoster)) = [exSession ''s2'' ''B'' 1]
   \<and> requestsOf (snd (deleteCourse ''A'' failed ok exRoster))
       = [Delete ''sessions'' (Eq ''courseId'' (JStr ''A'')), Delete ''courses'' (Eq ''id'' (JStr ''A''))]"
proof -
  have a: "filter (\<lambda>c. fld c ''id'' \<noteq> JStr ''A'') (courses exRoster) = [exCourse ''B'' 1 1]"
    by code_simp
  have b: "filter (\<lambda>s. fld s ''courseId'' \<noteq> JStr ''A'') (sessions exRoster) = [exSession ''s2'' ''B'' 1]"
    by code_simp
  from deleteCourse_cascade [of "''A''" failed ok exRoster] a b
  show ?thesis by (simp add: failed_def)
qed

section \<open>Updating and deleting a person\<close>

text \<open>
  Claim C10. \<open>deletePerson i\<close> keeps in both collections exactly the records whose \<open>id\<close>
  is not \<open>i\<close>; it takes the identifier only, and the one remote request it issues selects
  by \<open>id\<close>.
\<close>

theorem deletePerson_both_collections:
  "teachers (fst (deletePerson i r st)) = filter (\<lambda>t. fld t ''id'' \<noteq> JStr i) (teachers st)
   \<and> assistants (fst (deletePerson i r st)) = filter (\<lambda>a. fld a ''id'' \<noteq> JStr i) (assistants st)
   \<and> courses (fst (deletePerson i r st)) = courses st
   \<and> sessions (fst (deletePerson i r st)) = sessions st
   \<and> requestsOf (snd (deletePerson i r st)) = [Delete ''people'' (Eq ''id'' (JStr i))]"
  by (simp add: deletePerson_def strict_eq_JStr requestsOf_log_error)

theorem deletePerson_both_collections_witness:
  "teachers (fst (deletePerson ''p2'' ok exRoster)) = [exPerson ''p1'' ''Teacher'' ''Ann'']
   \<and> assistants (fst (deletePerson ''p2'' ok exRoster)) = []"
proof -
  have a: "filter (\<lambda>t. fld t ''id'' \<noteq> JStr ''p2'') (teachers exRoster) = [exPerson ''p1'' ''Teacher'' ''Ann'']"
    by code_simp
  have b: "filter (\<lambda>t. fld t ''id'' \<noteq> JStr ''p2'') (assistants exRoster) = []"
    by code_simp
  from deletePerson_both_collections [of "''p2''" ok exRoster] a b
  show ?thesis by simp
qed

text \<open>
  Claim C9, as the code has it. \<open>updatePerson p\<close> chooses the collection by \<open>p.type\<close>:
  for \<open>'Teacher'\<close> it replaces by \<open>p\<close> every record of \<open>teachers\<close> whose \<open>id\<close> is that of
  \<open>p\<close>, for any other type it does so in \<open>assistants\<close>; the other collection is unchanged.
\<close>

theorem updatePerson_by_type:
  "(fld p ''type'' = JStr ''Teacher'' \<longrightarrow>
      teachers (fst (updatePerson p r st))
        = map (\<lambda>t. if strict_eq (fld t ''id'') (fld p ''id'') then p else t) (teachers st)
      \<and> assistants (fst (updatePerson p r st)) = assistants st)
   \<and> (fld p ''type'' \<noteq> JStr ''Teacher'' \<longrightarrow>
      assistants (fst (updatePerson p r st))
        = map (\<lambda>a. if strict_eq (fld a ''id'') (fld p ''id'') then p else a) (assistants st)
      \<and> teachers (fst (updatePerson p r st)) = teachers st)"
  by (simp add: updatePerson_def strict_eq_JStr)

theorem updatePerson_by_type_witness:
  "fld (exPerson ''p2'' ''TA'' ''Bea'') ''type'' \<noteq> JStr ''Teacher''
   \<and> assistants (fst (updatePerson (exPerson ''p2'' ''TA'' ''Bea'') ok exRoster))
       = [exPerson ''p2'' ''TA'' ''Bea'']
   \<and> teachers (fst (updatePerson (exPerson ''p2'' ''TA'' ''Bea'') ok exRoster)) = teachers exRoster"
proof -
  have a: "fld (exPerson ''p2'' ''TA'' ''Bea'') ''type'' \<noteq> JStr ''Teacher''"
    by code_simp
  have b: "map (\<lambda>a. if strict_eq (fld a ''id'') (fld (exPerson ''p2'' ''TA'' ''Bea'') ''id'')
                     then exPerson ''p2'' ''TA'' ''Bea'' else a) (assistants exRoster)
           = [exPerson ''p2'' ''TA'' ''Bea'']"
    by code_simp
  from updatePerson_by_type [of "exPerson ''p2'' ''TA'' ''Bea''" ok exRoster] a b
  show ?thesis by simp
qed

text \<open>
  The collection that holds the record is not looked at. \<open>importData\<close> with kind
  \<open>teachers\<close> stores a row whatever its \<open>type\<close>; a row of type \<open>'TA'\<close> imported that way is
  held by \<open>teachers\<close>, and \<open>updatePerson\<close> with the same \<open>id\<close> and \<open>type\<close> maps over
  \<open>assistants\<close>: the record in \<open>teachers\<close> is not replaced.
\<close>

theorem updatePerson_holder_counterexample:
  "teachers (fst (importData Teachers [exPerson ''p7'' ''TA'' ''Cy''] Append (\<lambda>k. ''u'') ok ok
                    (exState [] [] [] [])))
     = [exPerson ''p7'' ''TA'' ''Cy'']
   \<and> strict_eq (fld (exPerson ''p7'' ''TA'' ''Cy'') ''id'') (fld (exPerson ''p7'' ''TA'' ''Di'') ''id'')
   \<and> teachers (fst (updatePerson (exPerson ''p7'' ''TA'' ''Di'') ok
        (fst (importData Teachers [exPerson ''p7'' ''TA'' ''Cy''] Append (\<lambda>k. ''u'') ok ok
                (exState [] [] [] [])))))
     = [exPerson ''p7'' ''TA'' ''Cy'']"
  by code_simp

section \<open>Importing records\<close>

lemma processedData_length: "length (processedData type u items) = length items"
  by (simp add: processedData_def)

lemma processedData_nth:
  "n < length items \<Longrightarrow> processedData type u items ! n = processItem type (u n) (items ! n)"
  by (simp add: processedData_def nth_enumerate_eq)

lemma processedData_member:
  "row \<in> set (processedData type u items) \<Longrightarrow> \<exists>k item. row = processItem type (u k) item"
  by (auto simp: processedData_def)

lemma processItem_Teachers:
  "processItem Teachers uuid item =
     AList.delete ''durationHours'' (AList.delete ''sequence''
       (AList.delete ''durationHours'' (AList.delete ''sequence''
         (AList.delete ''totalHours'' (AList.delete ''sessionCount''
           (AList.delete ''assistantIds'' (AList.delete ''teacherIds'' (withId uuid item))))))))"
  by (simp only: processItem_def withId_def Let_def importKind.distinct simp_thms if_True if_False)

lemma processItem_Assistants:
  "processItem Assistants uuid item =
     AList.delete ''durationHours'' (AList.delete ''sequence''
       (AList.delete ''durationHours'' (AList.delete ''sequence''
         (AList.delete ''totalHours'' (AList.delete ''sessionCount''
           (AList.delete ''assistantIds'' (AList.delete ''teacherIds'' (withId uuid item))))))))"
  by (simp only: processItem_def withId_def Let_def importKind.distinct simp_thms if_True if_False)

lemma processItem_Sessions:
  "processItem Sessions uuid item =
     AList.update ''durationHours'' (numberOr0 (fld item ''durationHours''))
       (AList.update ''sequence'' (numberOr0 (fld item ''sequence''))
         (AList.update ''assistantIds'' (coerceIds (fld item ''assistantIds''))
           (AList.update ''teacherIds'' (coerceIds (fld item ''teacherIds'')) (withId uuid item))))"
  by (simp only: processItem_def withId_def Let_def importKind.distinct simp_thms if_True if_False)

lemma processItem_Courses:
  "processItem Courses uuid item =
     AList.update ''totalHours'' (JNum (Finite 0))
       (AList.update ''sessionCount'' (JNum (Finite 0))
         (AList.update ''assistantIds'' (coerceIds (fld item ''assistantIds''))
           (AList.update ''teacherIds'' (coerceIds (fld item ''teacherIds'')) (withId uuid item))))"
  by (simp only: processItem_def withId_def Let_def importKind.distinct simp_thms if_True if_False)

lemma map_of_delete_same: "map_of (AList.delete k al) k = None"
  by (simp add: delete_conv')

lemma map_of_delete_other: "map_of al k = None \<Longrightarrow> map_of (AList.delete k' al) k = None"
  by (simp add: delete_conv')

lemma person_fields_stripped:
  assumes "type = Teachers \<or> type = Assistants" and "k \<in> set strayFields"
  shows "map_of (processItem type uuid item) k = None"
proof -
  from assms(1) have p: "processItem type uuid item =
     AList.delete ''durationHours'' (AList.delete ''sequence''
       (AList.delete ''durationHours'' (AList.delete ''sequence''
         (AList.delete ''totalHours'' (AList.delete ''sessionCount''
           (AList.delete ''assistantIds'' (AList.delete ''teacherIds'' (withId uuid item))))))))"
    by (auto simp only: processItem_Teachers processItem_Assistants)
  have "map_of (processItem type uuid item) ''teacherIds'' = None"
    unfolding p by (rule map_of_delete_same | rule map_of_delete_other)+
  moreover have "map_of (processItem type uuid item) ''assistantIds'' = None"
    unfolding p by (rule map_of_delete_same | rule map_of_delete_other)+
  moreover have "map_of (processItem type uuid item) ''sessionCount'' = None"
    unfolding p by (rule map_of_delete_same | rule map_of_delete_other)+
  moreover have "map_of (processItem type uuid item) ''totalHours'' = None"
    unfolding p by (rule map_of_delete_same | rule map_of_delete_other)+
  moreover have "map_of (processItem type uuid item) ''sequence'' = None"
    unfolding p by (rule map_of_delete_same | rule map_of_delete_other)+
  moreover have "map_of (processItem type uuid item) ''durationHours'' = None"
    unfolding p by (rule map_of_delete_same | rule map_of_delete_other)+
  moreover from assms(2) have "k = ''teacherIds'' \<or> k = ''assistantIds'' \<or> k = ''sessionCount''
      \<or> k = ''totalHours'' \<or> k = ''sequence'' \<or> k = ''durationHours''"
    by (simp add: strayFields_def)
  ultimately show ?thesis by blast
qed

lemma session_numbers:
  "map_of (processItem Sessions uuid item) ''sequence'' = Some (numberOr0 (fld item ''sequence''))"
  "map_of (processItem Sessions uuid item) ''durationHours''
     = Some (numberOr0 (fld item ''durationHours''))"
  by (simp_all add: processItem_Sessions update_conv')

lemma id_lists_coerced:
  assumes "type = Courses \<or> type = Sessions" and "k = ''teacherIds'' \<or> k = ''assistantIds''"
  shows "fld (processItem type uuid item) k = coerceIds (fld item k)"
  using assms
  by (elim disjE) (simp_all add: processItem_Sessions processItem_Courses fld_update)

lemma requestsOf_caught: "requestsOf (caught e) = []"
  by (simp add: caught_def)

lemma importData_state: "fst (importData type items mode u d r st)
    = importLocal type (processedData type u items) mode st"
  by (simp add: importData_def Let_def)

text \<open>
  Claim C7. The records \<open>importData\<close> stores are the processed ones, appended to or
  replacing the collection. When the kind is \<open>teachers\<close> or \<open>assistants\<close>, none of them
  has a \<open>teacherIds\<close>, \<open>assistantIds\<close>, \<open>sessionCount\<close>, \<open>totalHours\<close>, \<open>sequence\<close> or
  \<open>durationHours\<close> field. When the kind is \<open>sessions\<close>, a record whose input has no
  \<open>sequence\<close> is stored with \<open>sequence\<close> the number 0, and likewise \<open>durationHours\<close>.
\<close>

theorem import_normalizes:
  "teachers (fst (importData Teachers items mode u d r st))
     = (if mode = Replace then [] else teachers st) @ processedData Teachers u items
   \<and> assistants (fst (importData Assistants items mode u d r st))
     = (if mode = Replace then [] else assistants st) @ processedData Assistants u items
   \<and> sessions (fst (importData Sessions items mode u d r st))
     = (if mode = Replace then [] else sessions st) @ processedData Sessions u items
   \<and> (\<forall>row \<in> set (processedData Teachers u items) \<union> set (processedData Assistants u items).
        \<forall>k \<in> set strayFields. map_of row k = None)
   \<and> (\<forall>n < length items.
        (map_of (items ! n) ''sequence'' = None
           \<longrightarrow> map_of (processedData Sessions u items ! n) ''sequence'' = Some (JNum (Finite 0)))
        \<and> (map_of (items ! n) ''durationHours'' = None
           \<longrightarrow> map_of (processedData Sessions u items ! n) ''durationHours'' = Some (JNum (Finite 0))))"
proof (intro conjI)
  show "teachers (fst (importData Teachers items mode u d r st))
     = (if mode = Replace then [] else teachers st) @ processedData Teachers u items"
    by (simp add: importData_state importLocal_def)
  show "assistants (fst (importData Assistants items mode u d r st))
     = (if mode = Replace then [] else assistants st) @ processedData Assistants u items"
    by (simp add: importData_state importLocal_def)
  show "sessions (fst (importData Sessions items mode u d r st))
     = (if mode = Replace then [] else sessions st) @ processedData Sessions u items"
    by (simp add: importData_state importLocal_def)
  show "\<forall>row \<in> set (processedData Teachers u items) \<union> set (processedData Assistants u items).
        \<forall>k \<in> set strayFields. map_of row k = None"
    by (auto dest!: processedData_member simp: person_fields_stripped)
  show "\<forall>n < length items.
        (map_of (items ! n) ''sequence'' = None
           \<longrightarrow> map_of (processedData Sessions u items ! n) ''sequence'' = Some (JNum (Finite 0)))
        \<and> (map_of (items ! n) ''durationHours'' = None
           \<longrightarrow> map_of (processedData Sessions u items ! n) ''durationHours'' = Some (JNum (Finite 0)))"
    by (simp add: processedData_nth session_numbers numberOr0_def fld_def)
qed

theorem import_normalizes_witness:
  "teachers (fst (importData Teachers exRows Replace exUuid ok ok exRoster))
     = [[(''id'', JStr ''r1''), (''name'', JStr ''Eve'')], [(''courseId'', JStr ''A''), (''id'', JStr ''uuid-1'')]]
   \<and> map_of (exRows ! 1) ''sequence'' = None
   \<and> sessions (fst (importData Sessions exRows Append exUuid ok ok exRoster)) ! 3
     = [(''courseId'', JStr ''A''), (''assistantIds'', JArr [JStr ''p2'', JStr ''p3'']),
        (''id'', JStr ''uuid-1''), (''teacherIds'', JArr []),
        (''sequence'', JNum (Finite 0)), (''durationHours'', JNum (Finite 0))]
   \<and> map_of (processedData Sessions exUuid exRows ! 1) ''sequence'' = Some (JNum (Finite 0))"
proof -
  note R = import_normalizes [of exRows Replace exUuid ok ok exRoster]
  note A = import_normalizes [of exRows Append exUuid ok ok exRoster]
  have a: "processedData Teachers exUuid exRows
      = [[(''id'', JStr ''r1''), (''name'', JStr ''Eve'')], [(''courseId'', JStr ''A''), (''id'', JStr ''uuid-1'')]]"
    by code_simp
  have b: "map_of (exRows ! 1) ''sequence'' = None"
    by code_simp
  have c: "(sessions exRoster @ processedData Sessions exUuid exRows) ! 3
     = [(''courseId'', JStr ''A''), (''assistantIds'', JArr [JStr ''p2'', JStr ''p3'']),
        (''id'', JStr ''uuid-1''), (''teacherIds'', JArr []),
        (''sequence'', JNum (Finite 0)), (''durationHours'', JNum (Finite 0))]"
    by code_simp
  have l: "1 < length exRows" by code_simp
  from R have "teachers (fst (importData Teachers exRows Replace exUuid ok ok exRoster))
     = (if Replace = Replace then [] else teachers exRoster) @ processedData Teachers exUuid exRows"
    by (elim conjE)
  then have t: "teachers (fst (importData Teachers exRows Replace exUuid ok ok exRoster))
     = [[(''id'', JStr ''r1''), (''name'', JStr ''Eve'')], [(''courseId'', JStr ''A''), (''id'', JStr ''uuid-1'')]]"
    by (simp only: a simp_thms if_True append_Nil)
  from A have "sessions (fst (importData Sessions exRows Append exUuid ok ok exRoster))
     = (if Append = Replace then [] else sessions exRoster) @ processedData Sessions exUuid exRows"
    by (elim conjE)
  then have s: "sessions (fst (importData Sessions exRows Append exUuid ok ok exRoster)) ! 3
     = [(''courseId'', JStr ''A''), (''assistantIds'', JArr [JStr ''p2'', JStr ''p3'']),
        (''id'', JStr ''uuid-1''), (''teacherIds'', JArr []),
        (''sequence'', JNum (Finite 0)), (''durationHours'', JNum (Finite 0))]"
    by (simp only: c importMode.distinct if_False)
  from A have "\<forall>n < length exRows.
        (map_of (exRows ! n) ''sequence'' = None
           \<longrightarrow> map_of (processedData Sessions exUuid exRows ! n) ''sequence'' = Some (JNum (Finite 0)))
        \<and> (map_of (exRows ! n) ''durationHours'' = None
           \<longrightarrow> map_of (processedData Sessions exUuid exRows ! n) ''durationHours'' = Some (JNum (Finite 0)))"
    by (elim conjE)
  with b l have q: "map_of (processedData Sessions exUuid exRows ! 1) ''sequence'' = Some (JNum (Finite 0))"
    by blast
  from t b s q show ?thesis by (intro conjI)
qed

text \<open>
  Claim C8, as the code has it. For a record imported with kind \<open>courses\<close> or
  \<open>sessions\<close>, the stored \<open>teacherIds\<close> (and likewise \<open>assistantIds\<close>) is the input value
  when that is an array, the one-element array of the input value when that is a truthy
  value other than an array, and the empty array when the field is absent or falsy (the
  empty string, 0, \<open>false\<close>, \<open>null\<close>, \<open>NaN\<close>).
\<close>

theorem import_coerces_id_lists:
  assumes "type = Courses \<or> type = Sessions" and "k = ''teacherIds'' \<or> k = ''assistantIds''"
    and "n < length items"
  shows "(isArray (fld (items ! n) k)
            \<longrightarrow> fld (processedData type u items ! n) k = fld (items ! n) k)
       \<and> (\<not> isArray (fld (items ! n) k) \<and> truthy (fld (items ! n) k)
            \<longrightarrow> fld (processedData type u items ! n) k = JArr [fld (items ! n) k])
       \<and> (\<not> truthy (fld (items ! n) k)
            \<longrightarrow> fld (processedData type u items ! n) k = JArr [])"
proof -
  from assms(3) have "fld (processedData type u items ! n) k = fld (processItem type (u n) (items ! n)) k"
    by (simp add: processedData_nth)
  also from assms(1,2) have "\<dots> = coerceIds (fld (items ! n) k)"
    by (rule id_lists_coerced)
  finally show ?thesis
    by (cases "fld (items ! n) k") (simp_all add: coerceIds_def)
qed

theorem import_coerces_id_lists_witness:
  "fld (processedData Courses exUuid exRows ! 0) ''teacherIds'' = JArr [JStr ''p1'']
   \<and> fld (processedData Courses exUuid exRows ! 1) ''teacherIds'' = JArr []
   \<and> fld (processedData Sessions exUuid exRows ! 1) ''assistantIds'' = JArr [JStr ''p2'', JStr ''p3'']"
proof -
  have l: "0 < length exRows" "1 < length exRows" by code_simp+
  have a: "\<not> isArray (fld (exRows ! 0) ''teacherIds'') \<and> truthy (fld (exRows ! 0) ''teacherIds'')"
    by code_simp
  have a': "JArr [fld (exRows ! 0) ''teacherIds''] = JArr [JStr ''p1'']"
    by code_simp
  have b: "\<not> truthy (fld (exRows ! 1) ''teacherIds'')"
    by code_simp
  have c: "isArray (fld (exRows ! 1) ''assistantIds'')"
    by code_simp
  have c': "fld (exRows ! 1) ''assistantIds'' = JArr [JStr ''p2'', JStr ''p3'']"
    by code_simp
  from import_coerces_id_lists [of Courses "''teacherIds''" 0 exRows exUuid] l(1) a a'
  have x: "fld (processedData Courses exUuid exRows ! 0) ''teacherIds'' = JArr [JStr ''p1'']"
    by simp
  from import_coerces_id_lists [of Courses "''teacherIds''" 1 exRows exUuid] l(2) b
  have y: "fld (processedData Courses exUuid exRows ! 1) ''teacherIds'' = JArr []"
    by simp
  from import_coerces_id_lists [of Sessions "''assistantIds''" 1 exRows exUuid] l(2) c c'
  have z: "fld (processedData Sessions exUuid exRows ! 1) ''assistantIds'' = JArr [JStr ''p2'', JStr ''p3'']"
    by simp
  from x y z show ?thesis by blast
qed

text \<open>
  A scalar that is present but falsy is not wrapped: a course row whose \<open>teacherIds\<close> is
  the empty string and whose \<open>assistantIds\<close> is the number 0 is stored with two empty
  arrays, not with \<open>[\"\"]\<close> and \<open>[0]\<close>.
\<close>

theorem import_falsy_scalar_counterexample:
  "map_of [(''id'', JStr ''c1''), (''teacherIds'', JStr []), (''assistantIds'', JNum (Finite 0))]
      ''teacherIds'' = Some (JStr [])
   \<and> processedData Courses exUuid
        [[(''id'', JStr ''c1''), (''teacherIds'', JStr []), (''assistantIds'', JNum (Finite 0))]]
      = [[(''id'', JStr ''c1''), (''teacherIds'', JArr []), (''assistantIds'', JArr []),
          (''sessionCount'', JNum (Finite 0)), (''totalHours'', JNum (Finite 0))]]
   \<and> JArr [] \<noteq> JArr [JStr []]"
  by code_simp

text \<open>
  Claim C4. \<open>importData\<close> with kind \<open>teachers\<close> leaves the local \<open>assistants\<close> as they
  are and with kind \<open>assistants\<close> leaves the local \<open>teachers\<close> as they are, in both modes.
  In \<open>replace\<close> mode the only remote delete it issues for people selects the rows whose
  \<open>type\<close> is the person type of the kind; in \<open>append\<close> mode it issues no delete.
\<close>

theorem import_people_frame:
  "assistants (fst (importData Teachers items mode u d r st)) = assistants st
   \<and> teachers (fst (importData Assistants items mode u d r st)) = teachers st
   \<and> filter isDelete (requestsOf (snd (importData Teachers items Replace u d r st)))
       = [Delete ''people'' (Eq ''type'' (JStr ''Teacher''))]
   \<and> filter isDelete (requestsOf (snd (importData Assistants items Replace u d r st)))
       = [Delete ''people'' (Eq ''type'' (JStr ''TA''))]
   \<and> filter isDelete (requestsOf (snd (importData type items Append u d r st))) = []"
proof -
  have ins: "requestsOf
      (case r of Rejected e \<Rightarrow> caught e
       | Resolved x \<Rightarrow> (case error x of Some e \<Rightarrow> caught e | None \<Rightarrow> [])) = []"
    by (auto simp: requestsOf_caught split: settled.splits option.splits)
  show ?thesis
    by (cases d)
      (simp_all add: importData_def importLocal_def importSync_def tableName_def Let_def ins
        requestsOf_caught)
qed

theorem import_people_frame_witness:
  "assistants (fst (importData Teachers exRows Replace exUuid failed ok exRoster))
     = [exPerson ''p2'' ''TA'' ''Bob'']
   \<and> requestsOf (snd (importData Teachers exRows Replace exUuid failed ok exRoster))
     = [Delete ''people'' (Eq ''type'' (JStr ''Teacher'')),
        Insert ''people'' (processedData Teachers exUuid exRows)]"
proof -
  have a: "assistants exRoster = [exPerson ''p2'' ''TA'' ''Bob'']"
    by code_simp
  have b: "requestsOf (snd (importData Teachers exRows Replace exUuid failed ok exRoster))
     = [Delete ''people'' (Eq ''type'' (JStr ''Teacher'')),
        Insert ''people'' (processedData Teachers exUuid exRows)]"
    by code_simp
  from import_people_frame [of exRows Replace exUuid failed ok exRoster] a b
  show ?thesis by simp
qed

text \<open>
  Claim C5 on the code: a \<open>replace\<close> import of courses whose remote delete resolves with
  an error and whose insert succeeds. The local state is the one of the local apply, and
  the events are the two requests only: the error of the delete is neither logged nor
  turned into an alert.
\<close>

theorem import_delete_error_dropped:
  "fst (importData Courses [exCourse ''N'' 7 9] Replace exUuid
          (Resolved (Failure (JsError ''foreign key violation''))) (Resolved (Success [])) exRoster)
     = exRoster\<lparr>courses :=
          [[(''id'', JStr ''N''), (''sessionCount'', JNum (Finite 0)), (''totalHours'', JNum (Finite 0)),
            (''teacherIds'', JArr []), (''assistantIds'', JArr [])]]\<rparr>
   \<and> snd (importData Courses [exCourse ''N'' 7 9] Replace exUuid
          (Resolved (Failure (JsError ''foreign key violation''))) (Resolved (Success [])) exRoster)
     = [Issue (Delete ''courses'' (Neq ''id'' (JStr ''00000000-0000-0000-0000-000000000000''))),
        Issue (Insert ''courses''
          [[(''id'', JStr ''N''), (''sessionCount'', JNum (Finite 0)), (''totalHours'', JNum (Finite 0)),
            (''teacherIds'', JArr []), (''assistantIds'', JArr [])]])]"
  by code_simp

section \<open>Loading the data\<close>

lemma loadingFlags_append: "loadingFlags (xs @ ys) = loadingFlags xs @ loadingFlags ys"
  by (induction xs rule: loadingFlags.induct) simp_all

lemma requestsOf_append: "requestsOf (xs @ ys) = requestsOf xs @ requestsOf ys"
  by (induction xs rule: requestsOf.induct) simp_all

lemma warnIfError_quiet:
  "loadingFlags (warnIfError label res) = []" "requestsOf (warnIfError label res) = []"
  by (cases res; simp add: warnIfError_def)+

lemma fetchData_resolved:
  "fetchData (Resolved pr) (Resolved cr) (Resolved sr) st =
     (st\<lparr>teachers := filter (\<lambda>p. strict_eq (fld p ''type'') (JStr ''Teacher'')) (rowsOrEmpty pr),
         assistants := filter (\<lambda>p. strict_eq (fld p ''type'') (JStr ''TA'')) (rowsOrEmpty pr),
         courses := map (\<lambda>c. withStats c (sessionsOf (rowsOrEmpty sr) (fld c ''id''))) (rowsOrEmpty cr),
         sessions := rowsOrEmpty sr\<rparr>,
      [SetIsLoading True, Issue (Select ''people''), Issue (Select ''courses''),
       Issue (Select ''sessions'')]
        @ warnIfError ''Fetch People Error (Cloud):'' pr
        @ warnIfError ''Fetch Courses Error (Cloud):'' cr
        @ warnIfError ''Fetch Sessions Error (Cloud):'' sr
        @ [SetIsLoading False])"
  by (simp add: fetchData_def Let_def)

lemma fetchData_rejected:
  assumes "isRejected p \<or> isRejected c \<or> isRejected s"
  shows "fetchData p c s st =
     (st, [SetIsLoading True, Issue (Select ''people''), Issue (Select ''courses''),
           Issue (Select ''sessions'')]
          @ (case rejection [p, c, s] of None \<Rightarrow> [] | Some e \<Rightarrow> [ConsoleError ''Data load failed:'' e])
          @ [SetIsLoading False])"
  using assms by (cases p; cases c; cases s) (simp_all add: fetchData_def)

text \<open>
  Claim C6. \<open>fetchData\<close> sets the loading flag, issues the three reads before it awaits
  any of them, and clears the flag at the end, whatever the outcome. When the three reads
  resolve, each read that fails leaves its collection empty (both \<open>teachers\<close> and
  \<open>assistants\<close> for \<open>people\<close>) and prints a warning, and each read that succeeds populates
  its collection from its rows, whatever the other two did: people by \<open>type\<close>, sessions as
  they are, courses with their statistics recomputed from the sessions loaded. When a
  read throws (total failure) the state is left as it was.
\<close>

theorem fetchData_degrades:
  "take 4 (snd (fetchData p c s st))
     = [SetIsLoading True, Issue (Select ''people''), Issue (Select ''courses''),
        Issue (Select ''sessions'')]
   \<and> requestsOf (snd (fetchData p c s st)) = [Select ''people'', Select ''courses'', Select ''sessions'']
   \<and> loadingFlags (snd (fetchData p c s st)) = [True, False]
   \<and> last (snd (fetchData p c s st)) = SetIsLoading False
   \<and> (isRejected p \<or> isRejected c \<or> isRejected s \<longrightarrow> fst (fetchData p c s st) = st)
   \<and> (\<forall>pr cr sr. p = Resolved pr \<and> c = Resolved cr \<and> s = Resolved sr \<longrightarrow>
        (case pr of
           Failure e \<Rightarrow>
             teachers (fst (fetchData p c s st)) = [] \<and> assistants (fst (fetchData p c s st)) = []
             \<and> ConsoleWarn ''Fetch People Error (Cloud):'' e \<in> set (snd (fetchData p c s st))
         | Success rows \<Rightarrow>
             teachers (fst (fetchData p c s st)) = filter (\<lambda>x. fld x ''type'' = JStr ''Teacher'') rows
             \<and> assistants (fst (fetchData p c s st)) = filter (\<lambda>x. fld x ''type'' = JStr ''TA'') rows)
        \<and> (case cr of
             Failure e \<Rightarrow>
               courses (fst (fetchData p c s st)) = []
               \<and> ConsoleWarn ''Fetch Courses Error (Cloud):'' e \<in> set (snd (fetchData p c s st))
           | Success rows \<Rightarrow>
               courses (fst (fetchData p c s st))
                 = map (\<lambda>x. withStats x (sessionsOf (sessions (fst (fetchData p c s st))) (fld x ''id'')))
                     rows)
        \<and> (case sr of
             Failure e \<Rightarrow>
               sessions (fst (fetchData p c s st)) = []
               \<and> ConsoleWarn ''Fetch Sessions Error (Cloud):'' e \<in> set (snd (fetchData p c s st))
           | Success rows \<Rightarrow> sessions (fst (fetchData p c s st)) = rows))"
proof (cases "isRejected p \<or> isRejected c \<or> isRejected s")
  case True
  have ev: "take 4 (snd (fetchData p c s st))
     = [SetIsLoading True, Issue (Select ''people''), Issue (Select ''courses''),
        Issue (Select ''sessions'')]
   \<and> requestsOf (snd (fetchData p c s st)) = [Select ''people'', Select ''courses'', Select ''sessions'']
   \<and> loadingFlags (snd (fetchData p c s st)) = [True, False]
   \<and> last (snd (fetchData p c s st)) = SetIsLoading False"
    by (simp add: fetchData_rejected [OF True] requestsOf_append loadingFlags_append
        split: option.splits)
  have same: "fst (fetchData p c s st) = st"
    by (simp add: fetchData_rejected [OF True])
  have none: "\<And>pr cr sr. (p = Resolved pr \<and> c = Resolved cr \<and> s = Resolved sr) = False"
    using True by auto
  show ?thesis
    unfolding none using ev same by simp
next
  case False
  then obtain pr cr sr where r: "p = Resolved pr" "c = Resolved cr" "s = Resolved sr"
    by (cases p; cases c; cases s) simp_all
  have ev: "take 4 (snd (fetchData p c s st))
     = [SetIsLoading True, Issue (Select ''people''), Issue (Select ''courses''),
        Issue (Select ''sessions'')]
   \<and> requestsOf (snd (fetchData p c s st)) = [Select ''people'', Select ''courses'', Select ''sessions'']
   \<and> loadingFlags (snd (fetchData p c s st)) = [True, False]
   \<and> last (snd (fetchData p c s st)) = SetIsLoading False"
    by (simp add: r fetchData_resolved requestsOf_append loadingFlags_append warnIfError_quiet)
  have pe: "(case pr of
           Failure e \<Rightarrow>
             teachers (fst (fetchData p c s st)) = [] \<and> assistants (fst (fetchData p c s st)) = []
             \<and> ConsoleWarn ''Fetch People Error (Cloud):'' e \<in> set (snd (fetchData p c s st))
         | Success rows \<Rightarrow>
             teachers (fst (fetchData p c s st)) = filter (\<lambda>x. fld x ''type'' = JStr ''Teacher'') rows
             \<and> assistants (fst (fetchData p c s st)) = filter (\<lambda>x. fld x ''type'' = JStr ''TA'') rows)"
    by (cases pr) (simp_all add: r fetchData_resolved rowsOrEmpty_def warnIfError_def strict_eq_JStr)
  have co: "(case cr of
             Failure e \<Rightarrow>
               courses (fst (fetchData p c s st)) = []
               \<and> ConsoleWarn ''Fetch Courses Error (Cloud):'' e \<in> set (snd (fetchData p c s st))
           | Success rows \<Rightarrow>
               courses (fst (fetchData p c s st))
                 = map (\<lambda>x. withStats x (sessionsOf (sessions (fst (fetchData p c s st))) (fld x ''id'')))
                     rows)"
    by (cases cr) (simp_all add: r fetchData_resolved rowsOrEmpty_def warnIfError_def)
  have se: "(case sr of
             Failure e \<Rightarrow>
               sessions (fst (fetchData p c s st)) = []
               \<and> ConsoleWarn ''Fetch Sessions Error (Cloud):'' e \<in> set (snd (fetchData p c s st))
           | Success rows \<Rightarrow> sessions (fst (fetchData p c s st)) = rows)"
    by (cases sr) (simp_all add: r fetchData_resolved rowsOrEmpty_def warnIfError_def)
  from False ev pe co se r show ?thesis by simp
qed

text \<open>
  The read of people fails, the reads of courses and sessions succeed: the people
  collections are empty, a warning is printed, and courses and sessions are populated.
\<close>

theorem fetchData_degrades_witness:
  "teachers (fst (fetchData (Resolved (Failure (JsError ''permission denied''))) (Resolved (Success [exCourse ''A'' 9 9]))
                    (Resolved (Success [exSession ''s1'' ''A'' 2])) exRoster)) = []
   \<and> assistants (fst (fetchData (Resolved (Failure (JsError ''permission denied''))) (Resolved (Success [exCourse ''A'' 9 9]))
                    (Resolved (Success [exSession ''s1'' ''A'' 2])) exRoster)) = []
   \<and> courses (fst (fetchData (Resolved (Failure (JsError ''permission denied''))) (Resolved (Success [exCourse ''A'' 9 9]))
                    (Resolved (Success [exSession ''s1'' ''A'' 2])) exRoster))
       = [exCourse ''A'' 1 2]
   \<and> sessions (fst (fetchData (Resolved (Failure (JsError ''permission denied''))) (Resolved (Success [exCourse ''A'' 9 9]))
                    (Resolved (Success [exSession ''s1'' ''A'' 2])) exRoster))
       = [exSession ''s1'' ''A'' 2]
   \<and> snd (fetchData (Resolved (Failure (JsError ''permission denied''))) (Resolved (Success [exCourse ''A'' 9 9]))
                    (Resolved (Success [exSession ''s1'' ''A'' 2])) exRoster)
       = [SetIsLoading True, Issue (Select ''people''), Issue (Select ''courses''),
          Issue (Select ''sessions''),
          ConsoleWarn ''Fetch People Error (Cloud):'' (JsError ''permission denied''),
          SetIsLoading False]"
proof -
  let ?p = "Resolved (Failure (JsError ''permission denied''))"
  let ?c = "Resolved (Success [exCourse ''A'' 9 9])" and ?s = "Resolved (Success [exSession ''s1'' ''A'' 2])"
  from fetchData_degrades [of ?p ?c ?s exRoster]
  have a: "teachers (fst (fetchData ?p ?c ?s exRoster)) = []
      \<and> assistants (fst (fetchData ?p ?c ?s exRoster)) = []
      \<and> sessions (fst (fetchData ?p ?c ?s exRoster)) = [exSession ''s1'' ''A'' 2]"
    by simp
  have b: "courses (fst (fetchData ?p ?c ?s exRoster)) = [exCourse ''A'' 1 2]"
    by code_simp
  have c: "snd (fetchData ?p ?c ?s exRoster)
       = [SetIsLoading True, Issue (Select ''people''), Issue (Select ''courses''),
          Issue (Select ''sessions''),
          ConsoleWarn ''Fetch People Error (Cloud):'' (JsError ''permission denied''),
          SetIsLoading False]"
    by code_simp
  from a b c show ?thesis by blast
qed

end
